theory Spec2Isabelle
  imports Main "HOL-Library.Word"
begin

section \<open>JavaScript strings\<close>

text \<open>
  A JavaScript string is a sequence of UTF-16 code units. \<open>String.prototype.trim\<close>
  removes the code units of the productions WhiteSpace and LineTerminator from both
  ends; all of them lie in the basic plane, so the test is one per code unit.
  The empty string is the only falsy string.
\<close>

type_synonym js_string = "16 word list"

definition lit :: "string \<Rightarrow> js_string" where
  "lit s = map of_char s"

definition isWhiteSpace :: "16 word \<Rightarrow> bool" where
  "isWhiteSpace c \<longleftrightarrow>
     c = 0x9 \<or> c = 0xA \<or> c = 0xB \<or> c = 0xC \<or> c = 0xD \<or> c = 0x20 \<or> c = 0xA0 \<or>
     c = 0x1680 \<or> (0x2000 \<le> c \<and> c \<le> 0x200A) \<or> c = 0x2028 \<or> c = 0x2029 \<or>
     c = 0x202F \<or> c = 0x205F \<or> c = 0x3000 \<or> c = 0xFEFF"

definition trim :: "js_string \<Rightarrow> js_string" where
  "trim s = rev (dropWhile isWhiteSpace (rev (dropWhile isWhiteSpace s)))"

text \<open>Truthiness of an optional string property: \<open>undefined\<close> and \<open>""\<close> are falsy.\<close>

fun truthy :: "js_string option \<Rightarrow> bool" where
  "truthy None = False"
| "truthy (Some s) = (s \<noteq> [])"

section \<open>The coach page: \<open>src/pages/AICoachPage.tsx\<close>\<close>

datatype CoachState = Idle | Thinking | Talking

datatype TimeOfDay = Morning | Evening

fun timeOfDay_text :: "TimeOfDay \<Rightarrow> js_string" where
  "timeOfDay_text Morning = lit ''morning''"
| "timeOfDay_text Evening = lit ''evening''"

text \<open>
  The two calls of \<open>supabase.functions.invoke\<close>: \<open>'ai-coach'\<close> with the body
  \<open>{ prompt }\<close> and \<open>'generate-routine'\<close> with the body \<open>{ timeOfDay }\<close>.
\<close>

datatype invocation = Ai_coach js_string | Generate_routine TimeOfDay

datatype segment = IDLE_LOOP | THINKING_LOOP | TALKING

text \<open>
  What a handler does to the outside, in the order of the source: the function
  invocation, the calls on the animation reference, the toasts and the store's
  \<open>triggerRoutinesRefresh\<close>.
\<close>

datatype effect =
    Invoke invocation
  | PlaySegments segment bool
  | ToastError js_string
  | ToastSuccess js_string js_string
  | TriggerRoutinesRefresh

text \<open>
  The component's state: the three \<open>useState\<close> cells and whether \<open>lottieRef.current\<close>
  is set. \<open>currentMessage\<close> is declared a string, but \<open>data\<close> is untyped and
  \<open>setCurrentMessage(data.message)\<close> stores \<open>undefined\<close> when the property is absent:
  that value is \<open>None\<close>.
\<close>

record coach =
  coachState :: CoachState
  currentMessage :: "js_string option"
  inputValue :: js_string
  lottieMounted :: bool

text \<open>
  The state once the first render is committed: the initial values of the three cells,
  and the animation reference set.
\<close>

definition initial_coach :: coach where
  "initial_coach =
     \<lparr> coachState = Idle,
       currentMessage =
         Some (lit ''Hello! I am the Clarity Sage. How can I help you find focus today?''),
       inputValue = [],
       lottieMounted = True \<rparr>"

text \<open>
  The object \<open>data\<close> of an invocation's result, with the two properties the page reads,
  and how the awaited call settles: it returns \<open>{data, error}\<close> (\<open>data\<close> may be
  \<open>null\<close>, \<open>error\<close> is \<open>null\<close> or an error object, given by its message), or the
  promise rejects with an error (given by its message).
\<close>

record payload =
  response :: "js_string option"
  message :: "js_string option"

datatype settled =
    Returned "payload option" "js_string option"
  | Rejected js_string

text \<open>
  Reading a property of \<open>null\<close> throws a TypeError, whose message is the engine's text.
  The text here is V8's, which names the property read; other engines word it
  differently. The page shows it in a toast and does nothing else with it.
\<close>

definition typeError_message :: "string \<Rightarrow> js_string" where
  "typeError_message property =
     lit ''Cannot read properties of null (reading '' @ [0x27] @ lit property @ [0x27] @
     lit '')''"

definition playTalking :: "coach \<Rightarrow> effect list" where
  "playTalking st = (if lottieMounted st then [PlaySegments TALKING False] else [])"

subsection \<open>\<open>handleSendMessage\<close>\<close>

text \<open>The part before the \<open>await\<close>: the guard, the three setters and the invocation.\<close>

definition handleSendMessage :: "coach \<Rightarrow> js_string \<Rightarrow> coach \<times> effect list" where
  "handleSendMessage st prompt =
     (if trim prompt = [] \<or> coachState st \<noteq> Idle then (st, [])
      else (st\<lparr> coachState := Thinking,
                currentMessage := Some (lit ''Let me ponder on that for a moment...''),
                inputValue := [] \<rparr>,
            [Invoke (Ai_coach prompt)]))"

text \<open>
  The \<open>try\<close> block after the \<open>await\<close>: \<open>Inl\<close> is the error thrown (its message), and
  nothing has been set before any of the three throws.
\<close>

definition sendMessage_try :: "coach \<Rightarrow> settled \<Rightarrow> js_string + coach \<times> effect list" where
  "sendMessage_try st r =
     (case r of
        Rejected m \<Rightarrow> Inl m
      | Returned d e \<Rightarrow>
          (case e of
             Some m \<Rightarrow> Inl m
           | None \<Rightarrow>
               (case d of
                  None \<Rightarrow> Inl (typeError_message ''response'')
                | Some p \<Rightarrow>
                    if \<not> truthy (response p)
                    then Inl (lit ''The sage seems to be lost in thought...'')
                    else Inr (st\<lparr> coachState := Talking, currentMessage := response p \<rparr>,
                              playTalking st))))"

definition sendMessage_apology :: js_string where
  "sendMessage_apology = lit ''My apologies, my thoughts are unclear. Please ask again.''"

definition handleSendMessage_settled :: "coach \<Rightarrow> settled \<Rightarrow> coach \<times> effect list" where
  "handleSendMessage_settled st r =
     (case sendMessage_try st r of
        Inr done \<Rightarrow> done
      | Inl err \<Rightarrow>
          (st\<lparr> currentMessage := Some sendMessage_apology, coachState := Talking \<rparr>,
           [ToastError (lit ''The sage's crystal ball seems cloudy.'')]))"

subsection \<open>\<open>handleRoutineAction\<close>\<close>

definition handleRoutineAction :: "coach \<Rightarrow> TimeOfDay \<Rightarrow> coach \<times> effect list" where
  "handleRoutineAction st timeOfDay =
     (if coachState st \<noteq> Idle then (st, [])
      else (st\<lparr> coachState := Thinking,
                currentMessage :=
                  Some (lit ''Crafting a '' @ timeOfDay_text timeOfDay @
                        lit '' routine for you...'') \<rparr>,
            [Invoke (Generate_routine timeOfDay)]))"

definition routineAction_apology :: js_string where
  "routineAction_apology = lit ''I seem to have misplaced my quill. Could you ask again?''"

text \<open>
  The \<open>catch\<close> block: the toast shows the error's message, or the fallback text when
  the message is empty.
\<close>

definition routineAction_catch ::
  "coach \<Rightarrow> TimeOfDay \<Rightarrow> js_string \<Rightarrow> coach \<times> effect list" where
  "routineAction_catch st timeOfDay err =
     (st\<lparr> currentMessage := Some routineAction_apology, coachState := Talking \<rparr>,
      [ToastError
         (if err \<noteq> [] then err
          else lit ''Failed to generate '' @ timeOfDay_text timeOfDay @ lit '' routine.'')])"

text \<open>
  After the \<open>await\<close>. With \<open>data\<close> \<open>null\<close> the animation call and
  \<open>setCoachState('talking')\<close> have run when \<open>data.message\<close> throws, so the \<open>catch\<close>
  block continues from there. There is no test of \<open>data.message\<close>.
\<close>

definition handleRoutineAction_settled ::
  "coach \<Rightarrow> TimeOfDay \<Rightarrow> settled \<Rightarrow> coach \<times> effect list" where
  "handleRoutineAction_settled st timeOfDay r =
     (case r of
        Rejected m \<Rightarrow> routineAction_catch st timeOfDay m
      | Returned d e \<Rightarrow>
          (case e of
             Some m \<Rightarrow> routineAction_catch st timeOfDay m
           | None \<Rightarrow>
               (case d of
                  None \<Rightarrow>
                    (let (st', effs) =
                       routineAction_catch (st\<lparr> coachState := Talking \<rparr>) timeOfDay
                         (typeError_message ''message'')
                     in (st', playTalking st @ effs))
                | Some p \<Rightarrow>
                    (st\<lparr> coachState := Talking, currentMessage := message p \<rparr>,
                     playTalking st @
                     [ToastSuccess (lit ''Routine updated!'')
                        (lit ''New habits have been added to your '' @
                         timeOfDay_text timeOfDay @ lit '' routine page.''),
                      TriggerRoutinesRefresh]))))"

subsection \<open>\<open>onComplete\<close> of the animation\<close>

definition onComplete :: "coach \<Rightarrow> coach" where
  "onComplete st = (if coachState st = Talking then st\<lparr> coachState := Idle \<rparr> else st)"

subsection \<open>The effect on \<open>coachState\<close>\<close>

text \<open>
  The \<open>useEffect\<close> that runs after a render in which \<open>coachState\<close> has changed: it
  loops the thinking segment in the state \<open>thinking\<close> and the idle segment otherwise.
\<close>

definition coachState_effect :: "coach \<Rightarrow> effect list" where
  "coachState_effect st =
     (if \<not> lottieMounted st then []
      else if coachState st = Thinking then [PlaySegments THINKING_LOOP True]
      else [PlaySegments IDLE_LOOP True])"

subsection \<open>The handlers of a render\<close>

text \<open>
  A handler is created by a render, and the \<open>coachState\<close> it tests is the constant of
  that render, not the cell: the setters write the cells, and the constant changes only
  with the next render. The functions below are the three handlers that test
  \<open>coachState\<close>, with the constant of their render as the first argument and the cells
  they write as the second; the functions above are the handlers of a render that is up
  to date with the cells.
\<close>

definition handleSendMessage_from ::
  "CoachState \<Rightarrow> coach \<Rightarrow> js_string \<Rightarrow> coach \<times> effect list" where
  "handleSendMessage_from seen st prompt =
     (if trim prompt = [] \<or> seen \<noteq> Idle then (st, [])
      else (st\<lparr> coachState := Thinking,
                currentMessage := Some (lit ''Let me ponder on that for a moment...''),
                inputValue := [] \<rparr>,
            [Invoke (Ai_coach prompt)]))"

definition handleRoutineAction_from ::
  "CoachState \<Rightarrow> coach \<Rightarrow> TimeOfDay \<Rightarrow> coach \<times> effect list" where
  "handleRoutineAction_from seen st timeOfDay =
     (if seen \<noteq> Idle then (st, [])
      else (st\<lparr> coachState := Thinking,
                currentMessage :=
                  Some (lit ''Crafting a '' @ timeOfDay_text timeOfDay @
                        lit '' routine for you...'') \<rparr>,
            [Invoke (Generate_routine timeOfDay)]))"

definition onComplete_from :: "CoachState \<Rightarrow> coach \<Rightarrow> coach" where
  "onComplete_from seen st = (if seen = Talking then st\<lparr> coachState := Idle \<rparr> else st)"

subsection \<open>A session of the page\<close>

text \<open>
  A session is the \<open>coachState\<close> constant of the render last committed, the cells, the
  invocations that have been issued and have not settled yet, and everything emitted so
  far. Its events are the form's submit, the two routine buttons, the settling of an
  outstanding invocation (chosen by its position), the animation's \<open>onComplete\<close>, and
  the commit of a render. The handlers run one at a time on the event loop, each as the
  last committed render created it; the continuation after an \<open>await\<close> tests no state.
\<close>

record session =
  rendered :: CoachState
  ui :: coach
  inflight :: "invocation list"
  emitted :: "effect list"

datatype event =
    Submit js_string
  | RoutineButton TimeOfDay
  | Settles nat settled
  | AnimationComplete
  | Render

fun invocations :: "effect list \<Rightarrow> invocation list" where
  "invocations [] = []"
| "invocations (Invoke i # es) = i # invocations es"
| "invocations (_ # es) = invocations es"

definition initial_session :: session where
  "initial_session =
     \<lparr> rendered = coachState initial_coach, ui = initial_coach, inflight = [], emitted = [] \<rparr>"

definition after_handler :: "session \<Rightarrow> coach \<times> effect list \<Rightarrow> session" where
  "after_handler s r =
     s\<lparr> ui := fst r,
        inflight := inflight s @ invocations (snd r),
        emitted := emitted s @ snd r \<rparr>"

fun continuation :: "invocation \<Rightarrow> coach \<Rightarrow> settled \<Rightarrow> coach \<times> effect list" where
  "continuation (Ai_coach prompt) st r = handleSendMessage_settled st r"
| "continuation (Generate_routine timeOfDay) st r = handleRoutineAction_settled st timeOfDay r"

text \<open>
  The commit of a render makes the cell's value the constant of the handlers, and runs
  the effect on \<open>coachState\<close> when the value has changed.
\<close>

fun dispatch :: "session \<Rightarrow> event \<Rightarrow> session" where
  "dispatch s (Submit prompt) =
     after_handler s (handleSendMessage_from (rendered s) (ui s) prompt)"
| "dispatch s (RoutineButton timeOfDay) =
     after_handler s (handleRoutineAction_from (rendered s) (ui s) timeOfDay)"
| "dispatch s (Settles i r) =
     (if i < length (inflight s)
      then after_handler (s\<lparr> inflight := take i (inflight s) @ drop (Suc i) (inflight s) \<rparr>)
             (continuation (inflight s ! i) (ui s) r)
      else s)"
| "dispatch s AnimationComplete = s\<lparr> ui := onComplete_from (rendered s) (ui s) \<rparr>"
| "dispatch s Render =
     s\<lparr> rendered := coachState (ui s),
        emitted := emitted s @
          (if coachState (ui s) = rendered s then [] else coachState_effect (ui s)) \<rparr>"

definition run :: "session \<Rightarrow> event list \<Rightarrow> session" where
  "run s evs = foldl dispatch s evs"

text \<open>
  The schedules in which the render is committed after every call of
  \<open>handleSendMessage\<close> or \<open>handleRoutineAction\<close>, before the next event.
\<close>

fun is_handler :: "event \<Rightarrow> bool" where
  "is_handler (Submit prompt) = True"
| "is_handler (RoutineButton timeOfDay) = True"
| "is_handler _ = False"

fun render_next :: "event list \<Rightarrow> bool" where
  "render_next [] = True"
| "render_next (Render # es) = True"
| "render_next (_ # es) = False"

fun well_rendered :: "event list \<Rightarrow> bool" where
  "well_rendered [] = True"
| "well_rendered (e # es) = ((is_handler e \<longrightarrow> render_next es) \<and> well_rendered es)"

text \<open>
  The invariants of a session: an invocation is outstanding exactly while the cell is
  \<open>thinking\<close>, and then it is the only one; and the committed render is not behind a
  request that has started.
\<close>

definition one_at_a_time :: "session \<Rightarrow> bool" where
  "one_at_a_time s \<longleftrightarrow>
     length (inflight s) = (if coachState (ui s) = Thinking then 1 else 0)"

definition in_step :: "session \<Rightarrow> bool" where
  "in_step s \<longleftrightarrow>
     (coachState (ui s) = Thinking \<longrightarrow> rendered s = Thinking) \<and>
     (rendered s = Idle \<longrightarrow> coachState (ui s) = Idle)"

subsection \<open>Example states\<close>

text \<open>
  The page after the prompt \<open>"hi"\<close> has been submitted, after the morning button has
  been pressed, and after the coach's answer has arrived.
\<close>

definition pondering :: coach where
  "pondering = fst (handleSendMessage initial_coach (lit ''hi''))"

definition crafting :: coach where
  "crafting = fst (handleRoutineAction initial_coach Morning)"


section \<open>The routines page: \<open>RoutinesPage\<close>\<close>

text \<open>
  Modelled from the spec: the type \<open>Routine\<close> of \<open>services/api\<close>, which is not among
  the sources. The fields are those of the spec's data model, which are those the page
  reads (\<open>routine.id\<close>, \<open>routine.name\<close>, \<open>routine.time_of_day\<close>); ids are numbers.
\<close>

record Routine =
  r_id :: int
  r_name :: js_string
  time_of_day :: TimeOfDay

text \<open>
  Modelled from the spec: the type \<open>Habit\<close> of \<open>services/api\<close>, which is not among the
  sources; the page reads \<open>h.routine_id\<close>.
\<close>

record Habit =
  h_id :: int
  h_name :: js_string
  routine_id :: int

text \<open>
  Modelled from the spec: the type \<open>HabitLog\<close> of \<open>services/api\<close>, which is not among
  the sources; the page hands the logs on without reading them.
\<close>

record HabitLog =
  habit_id :: int
  date :: js_string
  completed :: bool

text \<open>What the page takes from the store's hook to render.\<close>

record snapshot =
  routines :: "Routine list"
  habits :: "Habit list"
  habitLogs :: "HabitLog list"
  isLoadingRoutines :: bool

text \<open>
  What the component returns: the spinner, the text that the tomes could not be found,
  or the two cards, each with its routine, the habits of that routine and the logs.
\<close>

datatype view =
    Spinner
  | TomesNotFound
  | RoutineCards "Routine \<times> Habit list \<times> HabitLog list" "Routine \<times> Habit list \<times> HabitLog list"

definition renderRoutineCard ::
  "'a snapshot_scheme \<Rightarrow> Routine \<Rightarrow> Routine \<times> Habit list \<times> HabitLog list" where
  "renderRoutineCard s routine =
     (routine, filter (\<lambda>h. routine_id h = r_id routine) (habits s), habitLogs s)"

definition RoutinesPage :: "'a snapshot_scheme \<Rightarrow> view" where
  "RoutinesPage s =
     (if isLoadingRoutines s then Spinner
      else
        (let morningRoutine = find (\<lambda>r. time_of_day r = Morning) (routines s);
             eveningRoutine = find (\<lambda>r. time_of_day r = Evening) (routines s)
         in case (morningRoutine, eveningRoutine) of
              (Some m, Some e) \<Rightarrow> RoutineCards (renderRoutineCard s m) (renderRoutineCard s e)
            | _ \<Rightarrow> TomesNotFound))"

section \<open>The data store\<close>

text \<open>
  The store \<open>stores/useDataStore\<close> is not among the sources: the pages only call it.
  Its operations are modelled from the spec, each in two parts as the asynchronous
  handlers above: the call, up to the request sent to the remote service, and the
  settling of that request.
\<close>

text \<open>
  Modelled from the spec: the requests of the remote service's contract that the three
  operations below send; the service itself is outside the repository.
\<close>

datatype request =
    FetchAll
  | SetHabitCompletion int js_string bool
  | DeleteRoutine int

text \<open>
  Modelled from the spec: how such a request settles, with its result or with the
  contract's \<open>NetworkError\<close>.
\<close>

datatype 'a outcome = Resolved 'a | NetworkError

text \<open>Modelled from the spec: the cache, which is the three collections.\<close>

type_synonym cache = "Routine list \<times> Habit list \<times> HabitLog list"

text \<open>
  Modelled from the spec: the store's state, which is the snapshot exposed to readers
  and the bookkeeping its concurrency rules need: the callers that wait for the
  outstanding \<open>fetchAll\<close> (none when no fetch is outstanding), and for each habit the
  number of toggles issued so far.
\<close>

record store = snapshot +
  fetchCallers :: "nat list"
  toggleCount :: "int \<Rightarrow> nat"

text \<open>Modelled from the spec: the cache held in a state of the missing store.\<close>

definition cache_of :: "'a snapshot_scheme \<Rightarrow> cache" where
  "cache_of s = (routines s, habits s, habitLogs s)"

subsection \<open>\<open>fetchRoutinesAndHabits\<close>\<close>

text \<open>
  Modelled from the spec: \<open>fetchRoutinesAndHabits\<close> of the missing store. It sets the
  loading flag and sends one \<open>fetchAll\<close>; invoked while a call is outstanding it sends
  nothing and its caller joins those who wait.
\<close>

definition fetchRoutinesAndHabits :: "store \<Rightarrow> nat \<Rightarrow> store \<times> request list" where
  "fetchRoutinesAndHabits s caller =
     (if fetchCallers s = []
      then (s\<lparr> isLoadingRoutines := True, fetchCallers := [caller] \<rparr>, [FetchAll])
      else (s\<lparr> fetchCallers := fetchCallers s @ [caller] \<rparr>, []))"

text \<open>
  Modelled from the spec: the settling of \<open>fetchAll\<close> in the missing store. On success
  the three collections are replaced together, on failure they are left as they were;
  the loading flag is cleared in both cases, and every waiting caller is handed the
  outcome, which on success is the resulting cache.
\<close>

definition fetchAll_settled ::
  "store \<Rightarrow> cache outcome \<Rightarrow> store \<times> (nat \<times> cache outcome) list" where
  "fetchAll_settled s r =
     (let s' = (case r of
                  Resolved (rs, hs, ls) \<Rightarrow> s\<lparr> routines := rs, habits := hs, habitLogs := ls \<rparr>
                | NetworkError \<Rightarrow> s);
          seen = (case r of Resolved _ \<Rightarrow> Resolved (cache_of s') | NetworkError \<Rightarrow> NetworkError)
      in (s'\<lparr> isLoadingRoutines := False, fetchCallers := [] \<rparr>,
          map (\<lambda>caller. (caller, seen)) (fetchCallers s)))"

subsection \<open>\<open>toggleHabit\<close>\<close>

text \<open>
  Modelled from the spec: the completion recorded for \<open>(habit, date)\<close> in the logs of
  the missing store, if there is an entry.
\<close>

definition log_of :: "HabitLog list \<Rightarrow> int \<Rightarrow> js_string \<Rightarrow> bool option" where
  "log_of logs h d =
     map_option completed (find (\<lambda>l. habit_id l = h \<and> date l = d) logs)"

text \<open>
  Modelled from the spec: the logs of the missing store without the entry of
  \<open>(habit, date)\<close>.
\<close>

definition remove_log :: "HabitLog list \<Rightarrow> int \<Rightarrow> js_string \<Rightarrow> HabitLog list" where
  "remove_log logs h d = filter (\<lambda>l. \<not> (habit_id l = h \<and> date l = d)) logs"

text \<open>
  Modelled from the spec: writing or overwriting the one entry of \<open>(habit, date)\<close> in
  the logs of the missing store; the data model allows at most one entry per pair.
\<close>

definition write_log :: "HabitLog list \<Rightarrow> int \<Rightarrow> js_string \<Rightarrow> bool \<Rightarrow> HabitLog list" where
  "write_log logs h d c =
     (if log_of logs h d = None
      then logs @ [\<lparr> habit_id = h, date = d, completed = c \<rparr>]
      else map (\<lambda>l. if habit_id l = h \<and> date l = d then l\<lparr> completed := c \<rparr> else l) logs)"

text \<open>
  Modelled from the spec: putting the entry of \<open>(habit, date)\<close> back to its value before
  a toggle in the missing store: removed if there was none.
\<close>

definition revert_log ::
  "HabitLog list \<Rightarrow> int \<Rightarrow> js_string \<Rightarrow> bool option \<Rightarrow> HabitLog list" where
  "revert_log logs h d prev =
     (case prev of
        None \<Rightarrow> remove_log logs h d
      | Some c \<Rightarrow> write_log logs h d c)"

text \<open>
  Modelled from the spec: what a toggle's network call in the missing store remembers
  until it settles: the habit, the date, its number among the toggles of that habit, and
  the entry's value before the toggle.
\<close>

record toggle =
  t_habit :: int
  t_date :: js_string
  t_number :: nat
  t_before :: "bool option"

text \<open>
  Modelled from the spec: \<open>toggleHabit\<close> of the missing store. It writes the entry for
  \<open>(habit, today)\<close> at once and sends \<open>setHabitCompletion\<close> in the background.
\<close>

definition toggleHabit ::
  "store \<Rightarrow> js_string \<Rightarrow> int \<Rightarrow> bool \<Rightarrow> store \<times> request list \<times> toggle" where
  "toggleHabit s today habitId c =
     (let n = Suc (toggleCount s habitId)
      in (s\<lparr> habitLogs := write_log (habitLogs s) habitId today c,
              toggleCount := (toggleCount s)(habitId := n) \<rparr>,
          [SetHabitCompletion habitId today c],
          \<lparr> t_habit = habitId, t_date = today, t_number = n,
            t_before = log_of (habitLogs s) habitId today \<rparr>))"

text \<open>
  Modelled from the spec: the settling of a toggle's \<open>setHabitCompletion\<close> in the missing
  store. Success changes nothing. A failure is surfaced (the second component), and the
  entry is put back to its value before the toggle, after comparison: only when no later
  toggle of the same habit has been issued, so that a stale response does not overwrite
  a newer optimistic value.
\<close>

definition setHabitCompletion_settled ::
  "store \<Rightarrow> toggle \<Rightarrow> unit outcome \<Rightarrow> store \<times> bool" where
  "setHabitCompletion_settled s t r =
     (case r of
        Resolved _ \<Rightarrow> (s, False)
      | NetworkError \<Rightarrow>
          (if t_number t = toggleCount s (t_habit t)
           then s\<lparr> habitLogs := revert_log (habitLogs s) (t_habit t) (t_date t) (t_before t) \<rparr>
           else s,
           True))"

subsection \<open>\<open>deleteRoutine\<close>\<close>

text \<open>
  Modelled from the spec: \<open>deleteRoutine\<close> of the missing store. The call forwards to
  the remote service and leaves the cache as it is (write-through).
\<close>

definition deleteRoutine :: "store \<Rightarrow> int \<Rightarrow> store \<times> request list" where
  "deleteRoutine s routineId = (s, [DeleteRoutine routineId])"

text \<open>
  Modelled from the spec: the settling of \<open>deleteRoutine\<close> in the missing store. On
  success the routine, its habits and the logs of those habits leave the cache in one
  update; on failure the cache is unchanged and the failure is surfaced (the second
  component).
\<close>

definition deleteRoutine_settled :: "store \<Rightarrow> int \<Rightarrow> unit outcome \<Rightarrow> store \<times> bool" where
  "deleteRoutine_settled s routineId r =
     (case r of
        Resolved _ \<Rightarrow>
          (let gone = map h_id (filter (\<lambda>h. routine_id h = routineId) (habits s))
           in (s\<lparr> routines := filter (\<lambda>x. r_id x \<noteq> routineId) (routines s),
                   habits := filter (\<lambda>h. routine_id h \<noteq> routineId) (habits s),
                   habitLogs := filter (\<lambda>l. habit_id l \<notin> set gone) (habitLogs s) \<rparr>,
               False))
      | NetworkError \<Rightarrow> (s, True))"

subsection \<open>Example data\<close>

definition today0 :: js_string where
  "today0 = lit ''2024-05-01''"

definition morning_tome :: Routine where
  "morning_tome = \<lparr> r_id = 1, r_name = lit ''Morning'', time_of_day = Morning \<rparr>"

definition evening_tome :: Routine where
  "evening_tome = \<lparr> r_id = 2, r_name = lit ''Evening'', time_of_day = Evening \<rparr>"

definition only_morning :: snapshot where
  "only_morning = \<lparr> routines = [morning_tome], habits = [], habitLogs = [],
     isLoadingRoutines = False \<rparr>"

definition both_tomes :: snapshot where
  "both_tomes = \<lparr> routines = [morning_tome, evening_tome], habits = [], habitLogs = [],
     isLoadingRoutines = False \<rparr>"

definition empty_store :: store where
  "empty_store = \<lparr> routines = [], habits = [], habitLogs = [], isLoadingRoutines = False,
     fetchCallers = [], toggleCount = (\<lambda>_. 0) \<rparr>"

definition tracked_store :: store where
  "tracked_store =
     \<lparr> routines = [morning_tome, evening_tome],
       habits = [\<lparr> h_id = 10, h_name = lit ''Stretch'', routine_id = 1 \<rparr>,
                 \<lparr> h_id = 11, h_name = lit ''Water'', routine_id = 1 \<rparr>,
                 \<lparr> h_id = 12, h_name = lit ''Read'', routine_id = 2 \<rparr>],
       habitLogs = [\<lparr> habit_id = 10, date = today0, completed = True \<rparr>,
                    \<lparr> habit_id = 12, date = today0, completed = True \<rparr>,
                    \<lparr> habit_id = 11, date = today0, completed = False \<rparr>],
       isLoadingRoutines = False, fetchCallers = [], toggleCount = (\<lambda>_. 0) \<rparr>"

section \<open>Properties of the coach page\<close>

subsection \<open>Blank prompts\<close>

lemma dropWhile_all_iff: "(\<forall>x\<in>set (dropWhile P xs). P x) \<longleftrightarrow> (\<forall>x\<in>set xs. P x)"
  by (induction xs) auto

lemma trim_empty_iff: "trim s = [] \<longleftrightarrow> (\<forall>c\<in>set s. isWhiteSpace c)"
  by (simp add: trim_def dropWhile_all_iff)

lemma pondering_eq:
  "pondering = \<lparr> coachState = Thinking,
       currentMessage = Some (lit ''Let me ponder on that for a moment...''),
       inputValue = [], lottieMounted = True \<rparr>"
  by (simp add: pondering_def handleSendMessage_def trim_empty_iff lit_def isWhiteSpace_def
      initial_coach_def)

lemma crafting_eq:
  "crafting = \<lparr> coachState = Thinking,
       currentMessage =
         Some (lit ''Crafting a '' @ lit ''morning'' @ lit '' routine for you...''),
       inputValue = [], lottieMounted = True \<rparr>"
  by (simp add: crafting_def handleRoutineAction_def initial_coach_def)


text \<open>
  C10: a prompt that is empty or has only whitespace code units is ignored by
  \<open>handleSendMessage\<close> in every state, the idle state included: the state, the current
  message and the input value are unchanged, and no invocation is issued.
\<close>

theorem blank_prompt_ignored:
  "\<forall>c\<in>set prompt. isWhiteSpace c \<Longrightarrow> handleSendMessage st prompt = (st, [])"
  by (simp add: handleSendMessage_def trim_empty_iff)

theorem blank_prompt_ignored_witness:
  "isWhiteSpace 0x20 \<and> isWhiteSpace 0x9 \<and> isWhiteSpace 0xA0 \<and>
   coachState initial_coach = Idle \<and>
   handleSendMessage initial_coach [0x20, 0x9, 0xA0] = (initial_coach, []) \<and>
   handleSendMessage initial_coach [] = (initial_coach, [])"
  using blank_prompt_ignored [of "[0x20, 0x9, 0xA0]" initial_coach]
    blank_prompt_ignored [of "[]" initial_coach]
  by (simp add: isWhiteSpace_def initial_coach_def)

subsection \<open>The guard, and one invocation at a time\<close>

lemma invocations_playTalking: "invocations (playTalking st @ es) = invocations es"
  by (simp add: playTalking_def)

lemma sendMessage_settled_talking:
  "coachState (fst (handleSendMessage_settled st r)) = Talking"
  by (auto simp: handleSendMessage_settled_def sendMessage_try_def
      split: settled.splits option.splits sum.splits if_splits)

lemma sendMessage_settled_invocations:
  "invocations (snd (handleSendMessage_settled st r)) = []"
  using invocations_playTalking [of st "[]"]
  by (auto simp: handleSendMessage_settled_def sendMessage_try_def
      split: settled.splits option.splits sum.splits if_splits)

lemma routineAction_settled_talking:
  "coachState (fst (handleRoutineAction_settled st t r)) = Talking"
  by (auto simp: handleRoutineAction_settled_def routineAction_catch_def
      split: settled.splits option.splits)

lemma routineAction_settled_invocations:
  "invocations (snd (handleRoutineAction_settled st t r)) = []"
  by (auto simp: handleRoutineAction_settled_def routineAction_catch_def
      invocations_playTalking split: settled.splits option.splits)

lemma continuation_talking: "coachState (fst (continuation i st r)) = Talking"
  by (cases i) (simp_all add: sendMessage_settled_talking routineAction_settled_talking)

lemma continuation_invocations: "invocations (snd (continuation i st r)) = []"
  by (cases i)
    (simp_all add: sendMessage_settled_invocations routineAction_settled_invocations)

lemma handleSendMessage_from_render:
  "handleSendMessage_from (coachState st) st prompt = handleSendMessage st prompt"
  by (simp add: handleSendMessage_from_def handleSendMessage_def)

lemma handleRoutineAction_from_render:
  "handleRoutineAction_from (coachState st) st timeOfDay = handleRoutineAction st timeOfDay"
  by (simp add: handleRoutineAction_from_def handleRoutineAction_def)

lemma onComplete_from_render: "onComplete_from (coachState st) st = onComplete st"
  by (simp add: onComplete_from_def onComplete_def)

lemma handler_one_at_a_time:
  assumes "one_at_a_time s" and "in_step s" and "is_handler e"
  shows "one_at_a_time (dispatch s e)"
proof (cases e)
  case (Submit prompt)
  with assms(1,2) show ?thesis
    by (auto simp: one_at_a_time_def in_step_def after_handler_def handleSendMessage_from_def)
next
  case (RoutineButton t)
  with assms(1,2) show ?thesis
    by (auto simp: one_at_a_time_def in_step_def after_handler_def
        handleRoutineAction_from_def)
qed (use assms(3) in simp_all)

lemma settles_in_step:
  assumes "one_at_a_time s" and "in_step s"
  shows "one_at_a_time (dispatch s (Settles i r)) \<and> in_step (dispatch s (Settles i r))"
proof (cases "i < length (inflight s)")
  case True
  with assms(1) have one: "length (inflight s) = 1" and i: "i = 0"
    and thinking: "coachState (ui s) = Thinking"
    by (auto simp: one_at_a_time_def split: if_splits)
  from thinking assms(2) have "rendered s = Thinking"
    by (simp add: in_step_def)
  then show ?thesis
    using one i True
    by (simp add: one_at_a_time_def in_step_def after_handler_def continuation_talking
        continuation_invocations)
next
  case False
  with assms show ?thesis by simp
qed

lemma other_in_step:
  assumes "one_at_a_time s" and "in_step s" and "\<not> is_handler e"
  shows "one_at_a_time (dispatch s e) \<and> in_step (dispatch s e)"
proof (cases e)
  case (Settles i r)
  with settles_in_step [OF assms(1,2)] show ?thesis by simp
next
  case AnimationComplete
  with assms(1,2) show ?thesis
    by (auto simp: one_at_a_time_def in_step_def onComplete_from_def)
next
  case Render
  with assms(1,2) show ?thesis
    by (simp add: one_at_a_time_def in_step_def)
qed (use assms(3) in simp_all)

lemma render_in_step:
  assumes "one_at_a_time s"
  shows "one_at_a_time (dispatch s Render) \<and> in_step (dispatch s Render)"
  using assms by (simp add: one_at_a_time_def in_step_def)

lemma render_next_cases: "render_next es \<Longrightarrow> es = [] \<or> (\<exists>es'. es = Render # es')"
  by (cases es rule: render_next.cases) simp_all

lemma run_well_rendered:
  "well_rendered evs \<Longrightarrow>
   (one_at_a_time s \<and> in_step s \<longrightarrow> one_at_a_time (run s evs)) \<and>
   (one_at_a_time s \<and> render_next evs \<longrightarrow> one_at_a_time (run s evs))"
proof (induction evs arbitrary: s)
  case Nil
  then show ?case by (simp add: run_def)
next
  case (Cons e es)
  from Cons.prems have wr: "well_rendered es" and nx: "is_handler e \<longrightarrow> render_next es"
    by simp_all
  have unfold: "run s (e # es) = run (dispatch s e) es"
    by (simp add: run_def)
  have first: "one_at_a_time (run s (e # es))" if "one_at_a_time s" and "in_step s"
  proof (cases "is_handler e")
    case True
    with that have "one_at_a_time (dispatch s e)"
      by (simp add: handler_one_at_a_time)
    moreover from True nx have "render_next es" by simp
    ultimately show ?thesis
      using Cons.IH [OF wr, of "dispatch s e"] unfold by simp
  next
    case False
    with that have "one_at_a_time (dispatch s e) \<and> in_step (dispatch s e)"
      by (simp add: other_in_step)
    then show ?thesis
      using Cons.IH [OF wr, of "dispatch s e"] unfold by simp
  qed
  have second: "one_at_a_time (run s (e # es))" if "one_at_a_time s" and "render_next (e # es)"
  proof -
    from that(2) have e: "e = Render"
      using render_next_cases [of "e # es"] by simp
    have "one_at_a_time (dispatch s Render) \<and> in_step (dispatch s Render)"
      by (rule render_in_step [OF that(1)])
    then have "one_at_a_time (run (dispatch s Render) es)"
      using Cons.IH [OF wr, of "dispatch s Render"] by blast
    then show ?thesis
      by (simp only: e run_def foldl_Cons)
  qed
  from first second show ?case by blast
qed

lemma initial_one_at_a_time: "one_at_a_time initial_session \<and> in_step initial_session"
  by (simp add: one_at_a_time_def in_step_def initial_session_def initial_coach_def)

text \<open>
  C5: a handler tests the \<open>coachState\<close> of the render that created it. Whenever that is
  not idle, \<open>handleSendMessage\<close> and \<open>handleRoutineAction\<close> return at once, whatever the
  cells hold: no invocation is issued and the state, with the current message, is
  unchanged; so they do for a render that is up to date with a state that is not idle.
  Hence in every session in which the render is committed after each call of these two
  handlers, at most one invocation is outstanding.
\<close>

theorem coach_guard:
  "(seen \<noteq> Idle \<longrightarrow>
      handleSendMessage_from seen st prompt = (st, []) \<and>
      handleRoutineAction_from seen st timeOfDay = (st, []))
   \<and> (coachState st \<noteq> Idle \<longrightarrow>
      handleSendMessage st prompt = (st, []) \<and> handleRoutineAction st timeOfDay = (st, []))
   \<and> (well_rendered evs \<longrightarrow> length (inflight (run initial_session evs)) \<le> 1)"
proof -
  have "one_at_a_time (run initial_session evs)" if "well_rendered evs"
    using run_well_rendered [OF that, of initial_session] initial_one_at_a_time by simp
  then have "well_rendered evs \<longrightarrow> length (inflight (run initial_session evs)) \<le> 1"
    by (simp add: one_at_a_time_def split: if_splits)
  then show ?thesis
    by (simp add: handleSendMessage_def handleRoutineAction_def handleSendMessage_from_def
        handleRoutineAction_from_def)
qed

theorem coach_guard_witness:
  "coachState pondering \<noteq> Idle \<and>
   handleSendMessage_from Thinking pondering (lit ''hi'') = (pondering, []) \<and>
   handleRoutineAction_from Thinking pondering Morning = (pondering, []) \<and>
   handleSendMessage pondering (lit ''hi'') = (pondering, []) \<and>
   handleRoutineAction pondering Morning = (pondering, []) \<and>
   well_rendered [Submit (lit ''hi''), Render, Submit (lit ''hi''), Render,
      RoutineButton Morning] \<and>
   length (inflight (run initial_session
      [Submit (lit ''hi''), Render, Submit (lit ''hi''), Render, RoutineButton Morning])) \<le> 1"
  using coach_guard [of Thinking pondering "lit ''hi''" Morning
      "[Submit (lit ''hi''), Render, Submit (lit ''hi''), Render, RoutineButton Morning]"]
  by (simp add: pondering_eq)

text \<open>
  Without the render in between the guard does not hold the second call back: two
  presses of the routine buttons handled by the same render both pass the test. After
  the first the state is \<open>thinking\<close>, yet the second issues an invocation as well, and
  two are outstanding.
\<close>

theorem coach_guard_counterexample:
  "coachState (ui (run initial_session [RoutineButton Morning])) = Thinking \<and>
   inflight (run initial_session [RoutineButton Morning]) = [Generate_routine Morning] \<and>
   inflight (run initial_session [RoutineButton Morning, RoutineButton Evening]) =
     [Generate_routine Morning, Generate_routine Evening] \<and>
   \<not> length (inflight (run initial_session [RoutineButton Morning, RoutineButton Evening]))
       \<le> 1"
  by (simp add: run_def initial_session_def initial_coach_def after_handler_def
      handleRoutineAction_from_def)

subsection \<open>The settling of an invocation\<close>

text \<open>
  For \<open>'ai-coach'\<close>, every failure and every empty or absent response ends in the
  \<open>catch\<close> block: the state is \<open>talking\<close>, the message is the fixed apology and an
  error toast is shown.
\<close>

lemma sendMessage_fallback:
  assumes "r = Rejected m \<or> r = Returned d (Some m) \<or> r = Returned None None \<or>
           (r = Returned (Some p) None \<and> \<not> truthy (response p))"
  shows "handleSendMessage_settled st r =
           (st\<lparr> currentMessage := Some sendMessage_apology, coachState := Talking \<rparr>,
            [ToastError (lit ''The sage's crystal ball seems cloudy.'')])"
  using assms by (auto simp: handleSendMessage_settled_def sendMessage_try_def)

text \<open>
  For \<open>'generate-routine'\<close>, a failure, and a result whose \<open>data\<close> is \<open>null\<close>, end in
  the \<open>catch\<close> block as well.
\<close>

lemma routineAction_failure:
  assumes "r = Rejected m \<or> r = Returned d (Some m)"
  shows "handleRoutineAction_settled st t r = routineAction_catch st t m"
  using assms by (auto simp: handleRoutineAction_settled_def)

lemma routineAction_null_data:
  "handleRoutineAction_settled st t (Returned None None) =
     (st\<lparr> coachState := Talking, currentMessage := Some routineAction_apology \<rparr>,
      playTalking st @ [ToastError (typeError_message ''message'')])"
  by (simp add: handleRoutineAction_settled_def routineAction_catch_def typeError_message_def)

text \<open>
  C6: the spec states the fallback for both invocations. \<open>handleRoutineAction\<close> does not test
  \<open>data.message\<close>, as \<open>handleSendMessage\<close> tests \<open>data.response\<close>: when
  \<open>'generate-routine'\<close> resolves without error and \<open>data\<close> has no message, or an empty
  one, the state is \<open>talking\<close>, the current message is that absent or empty value and
  not the apology, the success toast is shown and the store's refresh is triggered; no
  error toast is shown.
\<close>

theorem routineAction_empty_response:
  "handleRoutineAction_settled crafting Morning
     (Returned (Some \<lparr> response = None, message = None \<rparr>) None) =
     (crafting\<lparr> coachState := Talking, currentMessage := None \<rparr>,
      [PlaySegments TALKING False,
       ToastSuccess (lit ''Routine updated!'')
         (lit ''New habits have been added to your morning routine page.''),
       TriggerRoutinesRefresh])
   \<and> handleRoutineAction_settled crafting Morning
     (Returned (Some \<lparr> response = None, message = Some [] \<rparr>) None) =
     (crafting\<lparr> coachState := Talking, currentMessage := Some [] \<rparr>,
      [PlaySegments TALKING False,
       ToastSuccess (lit ''Routine updated!'')
         (lit ''New habits have been added to your morning routine page.''),
       TriggerRoutinesRefresh])"
  by (simp add: handleRoutineAction_settled_def crafting_eq playTalking_def lit_def)

text \<open>
  C7: when \<open>'generate-routine'\<close> settles without error and with a non-empty message,
  the page goes from \<open>thinking\<close> to \<open>talking\<close>, the message becomes the current message,
  the success toast is shown and \<open>triggerRoutinesRefresh\<close> is called; nothing else
  happens but the talking animation, when the animation is mounted.
\<close>

theorem routineAction_success:
  assumes "coachState st = Thinking" and "message p = Some m" and "m \<noteq> []"
    and "handleRoutineAction_settled st timeOfDay (Returned (Some p) None) = (st', effs)"
  shows "st' = st\<lparr> coachState := Talking, currentMessage := Some m \<rparr> \<and>
         coachState st' = Talking \<and> currentMessage st' = Some m \<and>
         inputValue st' = inputValue st \<and>
         invocations effs = [] \<and>
         effs = (if lottieMounted st then [PlaySegments TALKING False] else []) @
           [ToastSuccess (lit ''Routine updated!'')
              (lit ''New habits have been added to your '' @ timeOfDay_text timeOfDay @
               lit '' routine page.''),
            TriggerRoutinesRefresh]"
  using assms
  by (auto simp: handleRoutineAction_settled_def playTalking_def)

theorem routineAction_success_witness:
  "coachState crafting = Thinking \<and>
   handleRoutineAction_settled crafting Morning
     (Returned (Some \<lparr> response = None, message = Some (lit ''Done'') \<rparr>) None) =
     (crafting\<lparr> coachState := Talking, currentMessage := Some (lit ''Done'') \<rparr>,
      [PlaySegments TALKING False,
       ToastSuccess (lit ''Routine updated!'')
         (lit ''New habits have been added to your morning routine page.''),
       TriggerRoutinesRefresh])"
  using routineAction_success [of crafting
      "\<lparr> response = None, message = Some (lit ''Done'') \<rparr>" "lit ''Done''" Morning
      "crafting\<lparr> coachState := Talking, currentMessage := Some (lit ''Done'') \<rparr>"
      "[PlaySegments TALKING False,
        ToastSuccess (lit ''Routine updated!'')
          (lit ''New habits have been added to your morning routine page.''),
        TriggerRoutinesRefresh]"]
  by (simp add: crafting_eq handleRoutineAction_settled_def playTalking_def lit_def)

subsection \<open>The end of the animation\<close>



section \<open>Properties of the routines page\<close>

lemma find_None_all: "find P xs = None \<longleftrightarrow> (\<forall>x\<in>set xs. \<not> P x)"
  by (induction xs) auto

lemma find_Some_in: "find P xs = Some x \<Longrightarrow> x \<in> set xs \<and> P x"
  by (induction xs) (auto split: if_splits)

text \<open>
  C9: when loading has ended and the routines lack the morning or the evening routine,
  the page renders the text that the tomes could not be found: rendering returns that
  view and raises nothing. The condition does not stay: once a later fetch has brought
  both routines, the same component renders the two cards.
\<close>

theorem missing_routine_fallback:
  "(\<not> isLoadingRoutines s \<and>
      ((\<forall>r\<in>set (routines s). time_of_day r \<noteq> Morning) \<or>
       (\<forall>r\<in>set (routines s). time_of_day r \<noteq> Evening))
      \<longrightarrow> RoutinesPage s = TomesNotFound)
   \<and> (\<not> isLoadingRoutines s' \<and>
        (\<exists>r\<in>set (routines s'). time_of_day r = Morning) \<and>
        (\<exists>r\<in>set (routines s'). time_of_day r = Evening)
      \<longrightarrow> (\<exists>m\<in>set (routines s'). \<exists>e\<in>set (routines s').
             time_of_day m = Morning \<and> time_of_day e = Evening \<and>
             RoutinesPage s' = RoutineCards (renderRoutineCard s' m) (renderRoutineCard s' e)))"
proof -
  have missing: "RoutinesPage s = TomesNotFound"
    if "\<not> isLoadingRoutines s"
      and "find (\<lambda>r. time_of_day r = Morning) (routines s) = None \<or>
           find (\<lambda>r. time_of_day r = Evening) (routines s) = None"
    using that by (auto simp: RoutinesPage_def Let_def split: option.splits)
  have found: "\<exists>m\<in>set (routines s'). \<exists>e\<in>set (routines s').
             time_of_day m = Morning \<and> time_of_day e = Evening \<and>
             RoutinesPage s' = RoutineCards (renderRoutineCard s' m) (renderRoutineCard s' e)"
    if l: "\<not> isLoadingRoutines s'"
      and m: "find (\<lambda>r. time_of_day r = Morning) (routines s') \<noteq> None"
      and e: "find (\<lambda>r. time_of_day r = Evening) (routines s') \<noteq> None"
  proof -
    from m obtain x where x: "find (\<lambda>r. time_of_day r = Morning) (routines s') = Some x"
      by auto
    from e obtain y where y: "find (\<lambda>r. time_of_day r = Evening) (routines s') = Some y"
      by auto
    have "RoutinesPage s' = RoutineCards (renderRoutineCard s' x) (renderRoutineCard s' y)"
      using l x y by (simp add: RoutinesPage_def)
    with find_Some_in [OF x] find_Some_in [OF y] show ?thesis
      by blast
  qed
  show ?thesis
    using missing found by (simp add: find_None_all)
qed

theorem missing_routine_fallback_witness:
  "\<not> isLoadingRoutines only_morning \<and> \<not> isLoadingRoutines both_tomes \<and>
   RoutinesPage only_morning = TomesNotFound \<and>
   RoutinesPage both_tomes = RoutineCards (morning_tome, [], []) (evening_tome, [], [])"
  using missing_routine_fallback [of only_morning both_tomes]
  by (simp add: only_morning_def both_tomes_def morning_tome_def evening_tome_def
      renderRoutineCard_def)

section \<open>Properties of the data store\<close>

subsection \<open>Single-flight fetch\<close>

text \<open>
  C1: when \<open>fetchRoutinesAndHabits\<close> is invoked a second time while the first call is
  outstanding, the two invocations send exactly one \<open>fetchAll\<close> between them, and when
  it settles both callers are handed the same outcome: on success the resulting cache,
  which is the fetched one; on failure the failure, the cache being as it was.
\<close>

theorem single_flight_fetch:
  assumes "fetchCallers s = []"
    and "fetchRoutinesAndHabits s c1 = (s1, q1)"
    and "fetchRoutinesAndHabits s1 c2 = (s2, q2)"
    and "fetchAll_settled s2 r = (s3, seen)"
  shows "q1 @ q2 = [FetchAll] \<and> isLoadingRoutines s2 \<and>
         \<not> isLoadingRoutines s3 \<and> fetchCallers s3 = [] \<and>
         (case r of
            Resolved c \<Rightarrow>
              cache_of s3 = c \<and>
              seen = [(c1, Resolved (cache_of s3)), (c2, Resolved (cache_of s3))]
          | NetworkError \<Rightarrow>
              cache_of s3 = cache_of s \<and>
              seen = [(c1, NetworkError), (c2, NetworkError)])"
  using assms
  by (auto simp: fetchRoutinesAndHabits_def fetchAll_settled_def cache_of_def Let_def
      split: outcome.splits)

theorem single_flight_fetch_witness:
  "fetchCallers empty_store = [] \<and>
   snd (fetchRoutinesAndHabits empty_store 1) @
   snd (fetchRoutinesAndHabits (fst (fetchRoutinesAndHabits empty_store 1)) 2) = [FetchAll] \<and>
   snd (fetchAll_settled
          (fst (fetchRoutinesAndHabits (fst (fetchRoutinesAndHabits empty_store 1)) 2))
          (Resolved ([morning_tome, evening_tome], [], []))) =
     [(1, Resolved ([morning_tome, evening_tome], [], [])),
      (2, Resolved ([morning_tome, evening_tome], [], []))]"
  using single_flight_fetch [of empty_store 1
      "fst (fetchRoutinesAndHabits empty_store 1)" "snd (fetchRoutinesAndHabits empty_store 1)"
      2 "fst (fetchRoutinesAndHabits (fst (fetchRoutinesAndHabits empty_store 1)) 2)"
      "snd (fetchRoutinesAndHabits (fst (fetchRoutinesAndHabits empty_store 1)) 2)"
      "Resolved ([morning_tome, evening_tome], [], [])"
      "fst (fetchAll_settled
          (fst (fetchRoutinesAndHabits (fst (fetchRoutinesAndHabits empty_store 1)) 2))
          (Resolved ([morning_tome, evening_tome], [], [])))"
      "snd (fetchAll_settled
          (fst (fetchRoutinesAndHabits (fst (fetchRoutinesAndHabits empty_store 1)) 2))
          (Resolved ([morning_tome, evening_tome], [], [])))"]
  by (simp add: empty_store_def)

subsection \<open>Optimistic toggles\<close>

lemma log_of_None_iff:
  "log_of logs h d = None \<longleftrightarrow> (\<forall>l\<in>set logs. \<not> (habit_id l = h \<and> date l = d))"
  by (induction logs) (auto simp: log_of_def)

lemma log_of_append_new:
  "log_of logs h d = None \<Longrightarrow>
   log_of (logs @ [\<lparr> habit_id = h, date = d, completed = c \<rparr>]) h d = Some c"
  by (induction logs) (auto simp: log_of_def split: if_splits)

lemma log_of_map_set:
  "log_of logs h d \<noteq> None \<Longrightarrow>
   log_of (map (\<lambda>l. if habit_id l = h \<and> date l = d then l\<lparr> completed := c \<rparr> else l) logs) h d
     = Some c"
  by (induction logs) (auto simp: log_of_def split: if_splits)

lemma log_of_write_log: "log_of (write_log logs h d c) h d = Some c"
  by (simp add: write_log_def log_of_append_new log_of_map_set)

lemma remove_log_fresh:
  "log_of logs h d = None \<Longrightarrow>
   remove_log (logs @ [\<lparr> habit_id = h, date = d, completed = c \<rparr>]) h d = logs"
  by (simp add: remove_log_def log_of_None_iff)

lemma revert_fresh_write:
  "log_of logs h d = None \<Longrightarrow> revert_log (write_log logs h d c) h d None = logs"
  by (simp add: revert_log_def write_log_def remove_log_fresh)

text \<open>
  C2: for a habit with no log for today, \<open>toggleHabit\<close> with \<open>true\<close> writes the log
  \<open>{h, today, true}\<close> into the cache at once, before \<open>setHabitCompletion\<close> settles, and
  touches nothing else of the cache. If the call then fails, the log is removed again,
  the cache is what it was before the toggle, and the failure is surfaced. If the call
  succeeds, the store is not changed any further.
\<close>

theorem toggle_optimism_rollback:
  assumes "log_of (habitLogs s) h today = None"
    and "toggleHabit s today h True = (s1, q, t)"
  shows "log_of (habitLogs s1) h today = Some True \<and>
         routines s1 = routines s \<and> habits s1 = habits s \<and>
         q = [SetHabitCompletion h today True] \<and>
         log_of (habitLogs (fst (setHabitCompletion_settled s1 t NetworkError))) h today = None \<and>
         cache_of (fst (setHabitCompletion_settled s1 t NetworkError)) = cache_of s \<and>
         snd (setHabitCompletion_settled s1 t NetworkError) \<and>
         setHabitCompletion_settled s1 t (Resolved ()) = (s1, False)"
proof -
  from assms(2) have s1: "s1 = s\<lparr> habitLogs := write_log (habitLogs s) h today True,
        toggleCount := (toggleCount s)(h := Suc (toggleCount s h)) \<rparr>"
    and q: "q = [SetHabitCompletion h today True]"
    and t: "t = \<lparr> t_habit = h, t_date = today, t_number = Suc (toggleCount s h),
        t_before = None \<rparr>"
    using assms(1) by (simp_all add: toggleHabit_def Let_def)
  have undone: "habitLogs (fst (setHabitCompletion_settled s1 t NetworkError)) = habitLogs s"
    using assms(1) by (simp add: s1 t setHabitCompletion_settled_def revert_fresh_write)
  have rest: "routines (fst (setHabitCompletion_settled s1 t NetworkError)) = routines s"
    "habits (fst (setHabitCompletion_settled s1 t NetworkError)) = habits s"
    by (simp_all add: s1 t setHabitCompletion_settled_def)
  show ?thesis
    using assms(1) undone rest q
    by (simp add: cache_of_def) (simp add: s1 log_of_write_log setHabitCompletion_settled_def)
qed

theorem toggle_optimism_rollback_witness:
  "log_of (habitLogs empty_store) 7 today0 = None \<and>
   habitLogs (fst (toggleHabit empty_store today0 7 True)) =
     [\<lparr> habit_id = 7, date = today0, completed = True \<rparr>] \<and>
   habitLogs (fst (setHabitCompletion_settled (fst (toggleHabit empty_store today0 7 True))
       (snd (snd (toggleHabit empty_store today0 7 True))) NetworkError)) = []"
  using toggle_optimism_rollback [of empty_store 7 today0
      "fst (toggleHabit empty_store today0 7 True)"
      "fst (snd (toggleHabit empty_store today0 7 True))"
      "snd (snd (toggleHabit empty_store today0 7 True))"]
  by (simp add: empty_store_def toggleHabit_def write_log_def log_of_def
      setHabitCompletion_settled_def revert_log_def remove_log_def)

text \<open>
  C3: when \<open>toggleHabit\<close> with \<open>true\<close> and then \<open>toggleHabit\<close> with \<open>false\<close> are issued
  for a habit before either network call has settled, the log for today reads \<open>false\<close>.
  The response of the earlier call, whether success or failure, changes nothing in the
  store (a failure is still surfaced), so with the later call succeeding the log reads
  \<open>false\<close> at the end in both orders of arrival.
\<close>

theorem stale_response_ordering:
  assumes "toggleHabit s today h True = (s1, q1, t1)"
    and "toggleHabit s1 today h False = (s2, q2, t2)"
  shows "log_of (habitLogs s2) h today = Some False \<and>
         setHabitCompletion_settled s2 t1 r1 = (s2, r1 = NetworkError) \<and>
         log_of (habitLogs (fst (setHabitCompletion_settled
            (fst (setHabitCompletion_settled s2 t1 r1)) t2 (Resolved ())))) h today
           = Some False \<and>
         log_of (habitLogs (fst (setHabitCompletion_settled
            (fst (setHabitCompletion_settled s2 t2 (Resolved ()))) t1 r1))) h today
           = Some False"
proof -
  from assms have n1: "t_number t1 = Suc (toggleCount s h)" and h1: "t_habit t1 = h"
    and c2: "toggleCount s2 h = Suc (Suc (toggleCount s h))"
    and l2: "habitLogs s2 = write_log (habitLogs s1) h today False"
    by (auto simp: toggleHabit_def Let_def)
  have now: "log_of (habitLogs s2) h today = Some False"
    by (simp add: l2 log_of_write_log)
  have stale: "setHabitCompletion_settled s2 t1 r1 = (s2, r1 = NetworkError)"
    by (cases r1) (simp_all add: setHabitCompletion_settled_def n1 h1 c2)
  have ok: "setHabitCompletion_settled s2 t2 (Resolved ()) = (s2, False)"
    by (simp add: setHabitCompletion_settled_def)
  show ?thesis
    by (simp add: now stale ok)
qed

theorem stale_response_ordering_witness:
  "habitLogs (fst (toggleHabit (fst (toggleHabit empty_store today0 7 True)) today0 7 False)) =
     [\<lparr> habit_id = 7, date = today0, completed = False \<rparr>] \<and>
   habitLogs (fst (setHabitCompletion_settled
      (fst (toggleHabit (fst (toggleHabit empty_store today0 7 True)) today0 7 False))
      (snd (snd (toggleHabit empty_store today0 7 True))) NetworkError)) =
     [\<lparr> habit_id = 7, date = today0, completed = False \<rparr>]"
  using stale_response_ordering [of empty_store today0 7
      "fst (toggleHabit empty_store today0 7 True)"
      "fst (snd (toggleHabit empty_store today0 7 True))"
      "snd (snd (toggleHabit empty_store today0 7 True))"
      "fst (toggleHabit (fst (toggleHabit empty_store today0 7 True)) today0 7 False)"
      "fst (snd (toggleHabit (fst (toggleHabit empty_store today0 7 True)) today0 7 False))"
      "snd (snd (toggleHabit (fst (toggleHabit empty_store today0 7 True)) today0 7 False))"
      NetworkError]
  by (simp add: empty_store_def toggleHabit_def write_log_def log_of_def Let_def)

subsection \<open>Cascade delete\<close>

text \<open>
  C4: \<open>deleteRoutine\<close> forwards to the remote service without touching the cache. On
  success the cache loses the routine, every habit whose \<open>routine_id\<close> is the routine's
  id and every log of one of those habits, and keeps all the rest; on failure the store
  is unchanged, so no part of the cascade has happened, and the failure is surfaced.
\<close>

theorem cascade_delete:
  "deleteRoutine s routineId = (s, [DeleteRoutine routineId]) \<and>
   (\<exists>s'. deleteRoutine_settled s routineId (Resolved ()) = (s', False) \<and>
      set (routines s') = {x \<in> set (routines s). r_id x \<noteq> routineId} \<and>
      set (habits s') = {h \<in> set (habits s). routine_id h \<noteq> routineId} \<and>
      set (habitLogs s') =
        {l \<in> set (habitLogs s).
           \<forall>h\<in>set (habits s). routine_id h = routineId \<longrightarrow> habit_id l \<noteq> h_id h}) \<and>
   deleteRoutine_settled s routineId NetworkError = (s, True)"
  by (auto simp: deleteRoutine_def deleteRoutine_settled_def)

theorem cascade_delete_witness:
  "deleteRoutine_settled tracked_store 1 (Resolved ()) =
     (tracked_store\<lparr> routines := [evening_tome],
        habits := [\<lparr> h_id = 12, h_name = lit ''Read'', routine_id = 2 \<rparr>],
        habitLogs := [\<lparr> habit_id = 12, date = today0, completed = True \<rparr>] \<rparr>, False) \<and>
   deleteRoutine_settled tracked_store 1 NetworkError = (tracked_store, True)"
  using cascade_delete [of tracked_store 1]
  by (simp add: deleteRoutine_settled_def tracked_store_def morning_tome_def evening_tome_def)

end
